theory Spec2Isabelle
  imports
    Complex_Main
    "HOL-Library.Multiset"
    "HOL-Library.Char_ord"
    "HOL-Library.List_Lexorder"
    "HOL-Library.Log_Nat"
begin

section \<open>Scalp analysis pipeline of \<open>backend/model_load.py\<close>\<close>

text \<open>
  The module has two entry points: \<open>predict_stage\<close> (stage classification with a
  non-scalp gate) and \<open>analyze_hair_density\<close> (density trend over four time-stamped
  photographs). Both return a Python dict; a dict whose only key is \<open>"error"\<close> is how the
  module reports a failure.

  Conventions of the embedding:
  \<^item> A Python or NumPy float is an IEEE double. A finite double is modelled by the rational
    it denotes (\<^typ>\<open>rat\<close>), and every arithmetic operation of the source is the exact
    operation followed by \<open>fl\<close>, rounding to the nearest double. Comparisons of doubles are
    comparisons of these rationals.
  \<^item> The libraries the module calls (urllib, PIL, OpenCV, Keras) are parameters, collected
    in an environment record. A call that raises returns \<open>Inl msg\<close>, where \<open>msg\<close> is the
    text of the exception (\<open>str(e)\<close> in the source).
  \<^item> A \<open>try\<close>/\<open>except\<close> block is a case distinction on such a result.
\<close>

subsection \<open>Double-precision arithmetic\<close>

text \<open>
  Rounding to an integer, ties to the even one (\<open>rint\<close>).
\<close>

definition round_half_even :: "rat \<Rightarrow> int" where
  "round_half_even x =
     (let f = \<lfloor>x\<rfloor>; d = x - of_int f
      in if d < 1 / 2 then f
         else if 1 / 2 < d then f + 1
         else if even f then f else f + 1)"

text \<open>
  The binary exponent of a nonzero rational: the \<open>e\<close> with \<open>2^e \<le> |x| < 2^(e+1)\<close>
  (lemma \<open>exponent2_bounds\<close> below).
\<close>

definition exponent2 :: "rat \<Rightarrow> int" where
  "exponent2 x =
     (let a = \<bar>x\<bar>
      in if 1 \<le> a then bitlen \<lfloor>a\<rfloor> - 1 else - bitlen (\<lceil>1 / a\<rceil> - 1))"

text \<open>
  Round to nearest, ties to even, with a significand of 53 bits: the result is the
  integer multiple of \<open>2^(e-52)\<close> nearest to \<open>x\<close>. The exponent range is not bounded:
  overflow to infinity and the subnormal range (magnitudes above \<open>2^1023\<close> or below
  \<open>2^-1022\<close>) are not modelled, nor are NaN and the sign of zero. The percentages of
  this module stay far inside the normal range for any image that fits in memory.
\<close>

definition fl :: "rat \<Rightarrow> rat" where
  "fl x =
     (if x = 0 then 0
      else let ulp = 2 powi (exponent2 x - 52)
           in of_int (round_half_even (x / ulp)) * ulp)"

text \<open>
  \<open>round(percentage_change, 1)\<close>. The argument is a \<open>numpy.float64\<close>, whose \<open>__round__\<close>
  is NumPy's: multiply by 10, \<open>rint\<close>, divide by 10, each in double arithmetic. (When the
  baseline is 0 the argument is the Python float 0.0, and Python's own \<open>round\<close> returns
  0.0 as well.)
\<close>

definition py_round1 :: "rat \<Rightarrow> rat" where
  "py_round1 x = fl (of_int (round_half_even (fl (x * 10))) / 10)"

text \<open>
  \<open>np.mean\<close> of a list of doubles shorter than 8: the elements are added from left to
  right and the sum is divided by the count. (On the empty list NumPy returns NaN; the
  module calls it on three elements.)
\<close>

fun np_mean :: "rat list \<Rightarrow> rat" where
  "np_mean [] = 0"
| "np_mean (x # xs) =
     fl (foldl (\<lambda>s y. fl (s + y)) x xs / fl (of_nat (length (x # xs))))"

text \<open>\<open>np.max\<close> and \<open>np.argmax\<close> of a non-empty row (first index of the maximum).\<close>

fun np_max :: "rat list \<Rightarrow> rat" where
  "np_max [] = 0"
| "np_max (x # xs) = fold max xs x"

fun first_index :: "rat list \<Rightarrow> rat \<Rightarrow> nat" where
  "first_index [] y = 0"
| "first_index (x # xs) y = (if x = y then 0 else Suc (first_index xs y))"

definition np_argmax :: "rat list \<Rightarrow> nat" where
  "np_argmax xs = first_index xs (np_max xs)"

subsection \<open>\<open>np.argsort\<close> on a short array\<close>

text \<open>
  \<open>np.argsort(timestamps)\<close> is called on four elements. For an array of at most 16
  elements NumPy's default sort runs its insertion-sort tail directly:
  \<^verbatim>\<open>
  for (pi = pl + 1; pi <= pr; ++pi) {
      vi = *pi; vp = v[vi]; pj = pi; pk = pi - 1;
      while (pj > pl && less(vp, v[*pk])) { *pj-- = *pk--; }
      *pj = vi;
  }
  \<close>
  \<open>shift_insert\<close> is the inner \<open>while\<close> loop: its list argument is the already sorted
  prefix read from right to left (from \<open>pk\<close> down to \<open>pl\<close>), and the new index moves left
  past every index whose key is strictly greater.
\<close>

fun shift_insert :: "('a \<Rightarrow> 'k::linorder) \<Rightarrow> 'a \<Rightarrow> 'a list \<Rightarrow> 'a list" where
  "shift_insert v vi [] = [vi]"
| "shift_insert v vi (k # ks) =
     (if v vi < v k then k # shift_insert v vi ks else vi # k # ks)"

definition insertion_sort_key :: "('a \<Rightarrow> 'k::linorder) \<Rightarrow> 'a list \<Rightarrow> 'a list" where
  "insertion_sort_key v xs = rev (foldl (\<lambda>acc vi. shift_insert v vi acc) [] xs)"

definition argsort :: "'k::linorder list \<Rightarrow> nat list" where
  "argsort ts = insertion_sort_key (\<lambda>i. ts ! i) [0..<length ts]"

subsection \<open>\<open>predict_stage\<close>\<close>

definition male_labels :: "string list" where
  "male_labels =
     [''non-scalp'', ''Stage 1'', ''Stage 2'', ''Stage 3'', ''Stage 4'', ''Stage 5'', ''Stage 6'']"

definition female_labels :: "string list" where
  "female_labels =
     [''non-scalp'', ''Stage 1'', ''Stage 2'', ''Stage 3'', ''Stage 4'', ''Stage 5'']"

text \<open>
  The environment of \<open>predict_stage\<close>: \<open>load_image\<close> is the first \<open>try\<close> block (fetch the
  URL, open it as RGB, resize to 224 x 224, scale to [0,1]); \<open>male_model\<close> and
  \<open>female_model\<close> are \<open>model.predict\<close> of the two loaded networks, returning the single
  row of class probabilities.
\<close>

record 'img stage_env =
  load_image :: "string \<Rightarrow> string + 'img"
  male_model :: "'img \<Rightarrow> string + rat list"
  female_model :: "'img \<Rightarrow> string + rat list"

text \<open>The returned dict; an absent key is \<open>None\<close>.\<close>

record prediction =
  error :: "string option"
  stage :: "string option"
  confidence :: "rat option"
  image_url :: "string option"

definition error_only :: "string \<Rightarrow> prediction" where
  "error_only msg = \<lparr>error = Some msg, stage = None, confidence = None, image_url = None\<rparr>"

definition invalid_gender_msg :: string where
  "invalid_gender_msg =
     ''Invalid gender selection. Choose '' @ [CHR 0x27] @ ''male'' @ [CHR 0x27] @ '' or ''
       @ [CHR 0x27] @ ''female'' @ [CHR 0x27] @ ''.''"

definition predict_stage :: "'img stage_env \<Rightarrow> string \<Rightarrow> string \<Rightarrow> prediction" where
  "predict_stage env url gender =
     (case (if gender = ''male'' then Some (male_model env, male_labels)
            else if gender = ''female'' then Some (female_model env, female_labels)
            else None) of
        None \<Rightarrow> error_only invalid_gender_msg
      | Some (model, class_labels) \<Rightarrow>
          (case load_image env url of
             Inl e \<Rightarrow> error_only (''Error loading image from URL: '' @ e)
           | Inr img_array \<Rightarrow>
               (case model img_array of
                  Inl e \<Rightarrow> error_only (''Prediction failed: '' @ e)
                | Inr predictions \<Rightarrow>
                    if predictions = [] then
                      error_only (''Prediction failed: attempt to get argmax of an empty sequence'')
                    else
                      let predicted_class = np_argmax predictions;
                          confidence = np_max predictions
                      in if length class_labels \<le> predicted_class then
                           error_only (''Prediction failed: list index out of range'')
                         else if predicted_class = 0 then
                           \<lparr>error = Some ''Invalid image! Please upload a scalp image.'',
                            stage = Some (class_labels ! predicted_class),
                            confidence = Some confidence,
                            image_url = Some url\<rparr>
                         else
                           \<lparr>error = None,
                            stage = Some (class_labels ! predicted_class),
                            confidence = Some confidence,
                            image_url = Some url\<rparr>)))"

text \<open>
  Reading a returned dict: it is a failure when it carries nothing but the message, and
  it is a valid classification when it carries no \<open>"error"\<close> key.
\<close>

definition is_failure :: "prediction \<Rightarrow> bool" where
  "is_failure r = (error r \<noteq> None \<and> stage r = None \<and> confidence r = None)"

definition isValid :: "prediction \<Rightarrow> bool" where
  "isValid r = (error r = None)"

subsection \<open>\<open>analyze_hair_density\<close>\<close>

text \<open>
  A decoded grey raster, flattened, with at least one pixel (\<open>cv2.imdecode\<close> returns
  \<open>None\<close> instead of an empty array).
\<close>

datatype gray_image = Gray nat "nat list"

fun pixels :: "gray_image \<Rightarrow> nat list" where
  "pixels (Gray p ps) = p # ps"

record ('bytes, 'img) cv_env =
  urlopen_read :: "string \<Rightarrow> string + 'bytes"
  imdecode :: "'bytes \<Rightarrow> 'img option"
  cvtColor_BGR2GRAY :: "'img \<Rightarrow> gray_image"

text \<open>\<open>cv2.threshold(gray, 50, 255, cv2.THRESH_BINARY_INV)\<close>.\<close>

definition threshold_binary_inv :: "nat \<Rightarrow> nat \<Rightarrow> nat list \<Rightarrow> nat list" where
  "threshold_binary_inv t maxval gray = map (\<lambda>p. if t < p then 0 else maxval) gray"

text \<open>
  Lines 94 to 97. \<open>hair_pixels\<close> is a NumPy integer and \<open>total_pixels\<close> a Python int; the
  division converts both to doubles.
\<close>

definition hair_density :: "gray_image \<Rightarrow> rat" where
  "hair_density gray =
     (let thresh = threshold_binary_inv 50 255 (pixels gray);
          hair_pixels = length (filter (\<lambda>p. p = 255) thresh);
          total_pixels = length thresh
      in fl (fl (fl (of_nat hair_pixels) / fl (of_nat total_pixels)) * 100))"

text \<open>The body of the inner \<open>try\<close> for one URL (lines 87 to 100).\<close>

definition process_image :: "('bytes, 'img) cv_env \<Rightarrow> string \<Rightarrow> string + rat" where
  "process_image env url =
     (case urlopen_read env url of
        Inl e \<Rightarrow> Inl e
      | Inr img_data \<Rightarrow>
          (case imdecode env img_data of
             None \<Rightarrow> Inl (''Failed to decode image from '' @ url)
           | Some img \<Rightarrow> Inr (hair_density (cvtColor_BGR2GRAY env img))))"

text \<open>
  The \<open>for url in image_urls\<close> loop with its accumulator \<open>density_scores\<close>; the first
  exception returns the error dict (\<open>processed_urls\<close> only feeds the unused
  \<open>sorted_urls\<close> and is left out).
\<close>

fun process_images ::
  "('bytes, 'img) cv_env \<Rightarrow> string list \<Rightarrow> rat list \<Rightarrow> string + rat list" where
  "process_images env [] density_scores = Inr density_scores"
| "process_images env (url # urls) density_scores =
     (case process_image env url of
        Inl e \<Rightarrow> Inl (''Failed to process image '' @ url @ '': '' @ e)
      | Inr density \<Rightarrow> process_images env urls (density_scores @ [density]))"

datatype trend = Improved | Worsened | Stable

text \<open>The conditional expression of lines 121 and 129.\<close>

definition trend_status :: "rat \<Rightarrow> trend" where
  "trend_status c = (if 0 < c then Improved else if c < - 5 then Worsened else Stable)"

record trend_point =
  week :: nat
  percentageChange :: rat
  status :: trend

text \<open>The dict returned on success; its key \<open>"status"\<close> is the field \<open>overall_status\<close>.\<close>

record tracking =
  results :: "trend_point list"
  overall_status :: trend
  comparisonImageUrl :: "string option"

text \<open>Lines 117 to 120.\<close>

definition percentage_change :: "rat \<Rightarrow> rat \<Rightarrow> rat" where
  "percentage_change baseline_density current_density =
     (if baseline_density = 0 then 0
      else fl (fl (fl (current_density - baseline_density) / baseline_density) * 100))"

text \<open>
  The body of \<open>for i in range(1, 4)\<close>, with the baseline read of line 113: the status is
  computed from \<open>percentage_change\<close> (line 121), the stored field is its rounding
  (line 124).
\<close>

definition period_result :: "rat list \<Rightarrow> nat \<Rightarrow> trend_point" where
  "period_result sorted_densities i =
     (let baseline_density = sorted_densities ! 0;
          current_density = sorted_densities ! i;
          pc = percentage_change baseline_density current_density
      in \<lparr>week = i + 1, percentageChange = py_round1 pc, status = trend_status pc\<rparr>)"

text \<open>
  Lines 109 to 135, on the four density scores. The indices returned by \<open>argsort\<close> are a
  permutation of 0..3 (lemmas \<open>set_argsort\<close> and \<open>length_argsort\<close> below), so every list
  read is in range and nothing here raises.
\<close>

definition density_trend :: "rat list \<Rightarrow> 'k::linorder list \<Rightarrow> tracking" where
  "density_trend density_scores timestamps =
     (let sorted_indices = argsort timestamps;
          sorted_densities = map (\<lambda>i. density_scores ! i) sorted_indices;
          results = map (period_result sorted_densities) [1..<4];
          avg_change = np_mean (map percentageChange results)
      in \<lparr>results = results,
          overall_status = trend_status avg_change,
          comparisonImageUrl = None\<rparr>)"

text \<open>
  The whole function. Its dict has either the single key \<open>"error"\<close> (\<open>Inl\<close> of the
  message) or the three result keys (\<open>Inr\<close>). The outer \<open>except\<close> clause is not a branch
  of the model: the lines it guards do not raise on timestamps of one ordered type.
\<close>

definition analyze_hair_density ::
  "('bytes, 'img) cv_env \<Rightarrow> string list \<Rightarrow> 'k::linorder list \<Rightarrow> string + tracking" where
  "analyze_hair_density env image_urls timestamps =
     (if length image_urls \<noteq> 4 \<or> length timestamps \<noteq> 4 then
        Inl ''Exactly 4 images and timestamps are required''
      else
        case process_images env image_urls [] of
          Inl e \<Rightarrow> Inl e
        | Inr density_scores \<Rightarrow>
            if length density_scores \<noteq> 4 then Inl ''Failed to process all images''
            else Inr (density_trend density_scores timestamps))"

subsection \<open>A small test environment\<close>

text \<open>
  Six stored files whose bytes are already the grey levels of their pixels (dark pixels
  are 0, skin pixels 200); the empty file does not decode. The densities are 50, 25, 75,
  100 and 0 per cent.
\<close>

definition sample_store :: "(string \<times> nat list) list" where
  "sample_store =
     [(''week1.png'', [0, 0, 200, 200]),
      (''week2.png'', [0, 200, 200, 200]),
      (''week3.png'', [0, 0, 0, 200]),
      (''week4.png'', [0, 0, 0, 0]),
      (''blank.png'', [200, 200]),
      (''corrupt.png'', [])]"

definition sample_env :: "(nat list, nat list) cv_env" where
  "sample_env =
     \<lparr>urlopen_read =
        (\<lambda>url. case map_of sample_store url of
                  None \<Rightarrow> Inl ''HTTP Error 404: Not Found''
                | Some b \<Rightarrow> Inr b),
      imdecode = (\<lambda>b. if b = [] then None else Some b),
      cvtColor_BGR2GRAY = (\<lambda>img. Gray (hd img) (tl img))\<rparr>"

text \<open>
  Photographs given by their number of dark pixels: \<open>raster d n\<close> has \<open>n\<close> pixels of which
  \<open>d\<close> are dark.
\<close>

definition raster :: "nat \<Rightarrow> nat \<Rightarrow> nat list" where
  "raster d n = replicate d 0 @ replicate (n - d) 200"

definition percent_store :: "(string \<times> nat list) list" where
  "percent_store =
     [(''dark29.png'', raster 29 100),
      (''dark48.png'', raster 48 100),
      (''dark57.png'', raster 57 100),
      (''dark60.png'', raster 60 100),
      (''dark80.png'', raster 80 100),
      (''before.png'', raster 2000 4000),
      (''after.png'', raster 2001 4001)]"

definition percent_env :: "(nat list, nat list) cv_env" where
  "percent_env =
     \<lparr>urlopen_read =
        (\<lambda>url. case map_of percent_store url of
                  None \<Rightarrow> Inl ''HTTP Error 404: Not Found''
                | Some b \<Rightarrow> Inr b),
      imdecode = (\<lambda>b. if b = [] then None else Some b),
      cvtColor_BGR2GRAY = (\<lambda>img. Gray (hd img) (tl img))\<rparr>"

text \<open>
  The claim of the specification about the stored change, in its own words: the exact
  value of \<open>100 * (sample - baseline) / baseline\<close>, rounded to one decimal place.
\<close>

definition spec_percentage_change :: "rat \<Rightarrow> rat \<Rightarrow> rat" where
  "spec_percentage_change baseline sample =
     of_int (round_half_even (100 * (sample - baseline) / baseline * 10)) / 10"

text \<open>A classifier environment whose two networks return fixed rows.\<close>

definition sample_stage_env :: "string stage_env" where
  "sample_stage_env =
     \<lparr>load_image = (\<lambda>url. if url = ''missing.png'' then Inl ''HTTP Error 404: Not Found'' else Inr url),
      male_model = (\<lambda>img. Inr [9 / 10, 1 / 20, 1 / 20, 0, 0, 0, 0]),
      female_model = (\<lambda>img. Inr [3 / 5, 1 / 5, 1 / 5, 0, 0, 0])\<rparr>"

section \<open>Properties\<close>

subsection \<open>The insertion sort behind \<open>argsort\<close>\<close>

lemma mset_shift_insert: "mset (shift_insert v x ks) = add_mset x (mset ks)"
  by (induction ks) auto

lemma sorted_shift_insert:
  "sorted (rev (map v ks)) \<Longrightarrow> sorted (rev (map v (shift_insert v x ks)))"
proof (induction ks)
  case Nil
  then show ?case by simp
next
  case (Cons k ks)
  show ?case
  proof (cases "v x < v k")
    case True
    have tail: "sorted (rev (map v ks))" and le: "\<forall>y\<in>set ks. v y \<le> v k"
      using Cons.prems by (auto simp: sorted_append)
    have "set (shift_insert v x ks) = insert x (set ks)"
      by (metis mset_shift_insert set_mset_add_mset_insert set_mset_mset)
    with True le have "\<forall>y\<in>set (shift_insert v x ks). v y \<le> v k" by auto
    with True Cons.IH [OF tail] show ?thesis by (auto simp: sorted_append)
  next
    case False
    with Cons.prems show ?thesis by (auto simp: sorted_append)
  qed
qed

lemma filter_shift_insert:
  "filter (\<lambda>y. v y = k) (shift_insert v x ks) =
     (if v x = k then x # filter (\<lambda>y. v y = k) ks else filter (\<lambda>y. v y = k) ks)"
  by (induction ks) auto

lemma insertion_sort_key_snoc:
  "insertion_sort_key v (xs @ [x]) = rev (shift_insert v x (rev (insertion_sort_key v xs)))"
  by (simp add: insertion_sort_key_def)

lemma mset_insertion_sort_key: "mset (insertion_sort_key v xs) = mset xs"
  by (induction xs rule: rev_induct)
     (simp_all add: insertion_sort_key_def mset_shift_insert)

lemma sorted_insertion_sort_key: "sorted (map v (insertion_sort_key v xs))"
proof (induction xs rule: rev_induct)
  case Nil
  then show ?case by (simp add: insertion_sort_key_def)
next
  case (snoc x xs)
  let ?acc = "rev (insertion_sort_key v xs)"
  have "sorted (rev (map v ?acc))" using snoc.IH by (simp add: rev_map)
  then have "sorted (rev (map v (shift_insert v x ?acc)))" by (rule sorted_shift_insert)
  then show ?case by (simp add: insertion_sort_key_snoc rev_map)
qed

lemma filter_insertion_sort_key:
  "filter (\<lambda>y. v y = k) (insertion_sort_key v xs) = filter (\<lambda>y. v y = k) xs"
proof (induction xs rule: rev_induct)
  case Nil
  then show ?case by (simp add: insertion_sort_key_def)
next
  case (snoc x xs)
  then show ?case
    by (simp add: insertion_sort_key_snoc filter_shift_insert flip: rev_filter)
qed

lemma insertion_sort_key_eq_sort_key: "insertion_sort_key v xs = sort_key v xs"
proof (rule properties_for_sort_key [symmetric])
  show "mset (insertion_sort_key v xs) = mset xs" by (rule mset_insertion_sort_key)
  show "sorted (map v (insertion_sort_key v xs))" by (rule sorted_insertion_sort_key)
  fix k
  have "filter (\<lambda>y. v y = v k) (insertion_sort_key v xs) = filter (\<lambda>y. v y = v k) xs"
    by (rule filter_insertion_sort_key)
  then show "filter (\<lambda>y. v k = v y) (insertion_sort_key v xs) = filter (\<lambda>y. v k = v y) xs"
    by (simp add: eq_commute)
qed

lemma mset_argsort: "mset (argsort ts) = mset [0..<length ts]"
  by (simp add: argsort_def mset_insertion_sort_key)

lemma set_argsort: "set (argsort ts) = {0..<length ts}"
  by (metis mset_argsort set_mset_mset set_upt)

lemma length_argsort: "length (argsort ts) = length ts"
  by (metis mset_argsort size_mset length_upt diff_zero)

lemma nth_argsort_less: "i < length ts \<Longrightarrow> argsort ts ! i < length ts"
  using set_argsort [of ts] length_argsort [of ts] nth_mem [of i "argsort ts"] by auto

lemma sorted_argsort: "sorted (map (\<lambda>i. ts ! i) (argsort ts))"
  by (simp add: argsort_def sorted_insertion_sort_key)

lemma stable_argsort:
  "filter (\<lambda>i. ts ! i = k) (argsort ts) = filter (\<lambda>i. ts ! i = k) [0..<length ts]"
  by (simp add: argsort_def filter_insertion_sort_key)

lemma argsort_sorted_id: "sorted ts \<Longrightarrow> argsort ts = [0..<length ts]"
proof -
  assume "sorted ts"
  then have "sorted (map (\<lambda>i. ts ! i) [0..<length ts])" by (simp add: map_nth)
  then show ?thesis
    by (simp add: argsort_def insertion_sort_key_eq_sort_key sort_key_id_if_sorted)
qed

lemma map_nth_argsort:
  "map (\<lambda>i. xs ! i) (argsort (map f xs)) = sort_key f xs"
proof (rule properties_for_sort_key [symmetric])
  let ?idx = "argsort (map f xs)"
  have in_range: "\<forall>i\<in>set ?idx. i < length xs" by (simp add: set_argsort)
  show "mset (map (\<lambda>i. xs ! i) ?idx) = mset xs"
  proof -
    have "mset (map (\<lambda>i. xs ! i) ?idx) = image_mset (\<lambda>i. xs ! i) (mset ?idx)"
      by simp
    also have "\<dots> = image_mset (\<lambda>i. xs ! i) (mset [0..<length xs])"
      by (simp only: mset_argsort length_map)
    also have "\<dots> = mset (map (\<lambda>i. xs ! i) [0..<length xs])" by simp
    finally show ?thesis by (simp add: map_nth)
  qed
  have keys: "map f (map (\<lambda>i. xs ! i) ?idx) = map (\<lambda>i. map f xs ! i) ?idx"
    using in_range by simp
  show "sorted (map f (map (\<lambda>i. xs ! i) ?idx))"
    unfolding keys by (rule sorted_argsort)
  fix k
  have "filter (\<lambda>x. f k = f x) (map (\<lambda>i. xs ! i) ?idx)
      = map (\<lambda>i. xs ! i) (filter (\<lambda>i. map f xs ! i = f k) ?idx)"
    using in_range by (auto simp: filter_map comp_def intro!: arg_cong [where f = "map _"] filter_cong)
  also have "\<dots> = map (\<lambda>i. xs ! i) (filter (\<lambda>i. map f xs ! i = f k) [0..<length xs])"
    using stable_argsort [of "map f xs" "f k"] by simp
  also have "\<dots> = filter (\<lambda>x. f k = f x) (map (\<lambda>i. xs ! i) [0..<length xs])"
    by (auto simp: filter_map comp_def intro!: arg_cong [where f = "map _"] filter_cong)
  finally show "filter (\<lambda>x. f k = f x) (map (\<lambda>i. xs ! i) ?idx) = filter (\<lambda>x. f k = f x) xs"
    by (simp add: map_nth)
qed

subsection \<open>Rounding to the nearest double\<close>

lemma fl_zero: "fl 0 = 0"
  by (simp add: fl_def)

lemma round_half_even_near: "\<bar>of_int (round_half_even x) - x\<bar> \<le> 1 / 2"
proof -
  have "of_int \<lfloor>x\<rfloor> \<le> x" "x < of_int \<lfloor>x\<rfloor> + 1" by linarith+
  then show ?thesis
    by (auto simp: round_half_even_def Let_def)
qed

lemma exponent2_bounds:
  assumes "x \<noteq> 0"
  shows "2 powi exponent2 x \<le> \<bar>x\<bar>" and "\<bar>x\<bar> < 2 powi (exponent2 x + 1)"
proof -
  let ?a = "\<bar>x\<bar>"
  have pos: "0 < ?a" using assms by simp
  show "2 powi exponent2 x \<le> \<bar>x\<bar>"
  proof (cases "1 \<le> ?a")
    case True
    let ?m = "\<lfloor>?a\<rfloor>"
    have m: "0 < ?m" using True by linarith
    have e: "exponent2 x = bitlen ?m - 1" using True by (simp add: exponent2_def Let_def)
    have b1: "1 \<le> bitlen ?m" using m by (simp add: bitlen_alt_def)
    from bitlen_bounds [OF m] have "2 ^ nat (bitlen ?m - 1) \<le> ?m" by simp
    then have "(2::rat) ^ nat (bitlen ?m - 1) \<le> of_int ?m"
      by (metis of_int_le_iff of_int_numeral of_int_power)
    also have "\<dots> \<le> ?a" by linarith
    finally show ?thesis using b1 by (simp add: e power_int_def)
  next
    case False
    let ?m = "\<lceil>1 / ?a\<rceil>"
    have y: "1 < 1 / ?a" using False pos by simp
    then have m: "0 < ?m - 1" by linarith
    have e: "exponent2 x = - bitlen (?m - 1)" using False by (simp add: exponent2_def Let_def)
    have b1: "1 \<le> bitlen (?m - 1)" using m by (simp add: bitlen_alt_def)
    from bitlen_bounds [OF m] have "?m - 1 < 2 ^ nat (bitlen (?m - 1))" by simp
    then have "?m \<le> 2 ^ nat (bitlen (?m - 1))" by linarith
    then have "of_int ?m \<le> (2::rat) ^ nat (bitlen (?m - 1))"
      by (metis of_int_le_iff of_int_numeral of_int_power)
    moreover have "1 / ?a \<le> of_int ?m" by linarith
    ultimately have "1 / ?a \<le> (2::rat) ^ nat (bitlen (?m - 1))" by linarith
    then have "1 / 2 ^ nat (bitlen (?m - 1)) \<le> ?a"
      using pos by (simp add: field_simps)
    then show ?thesis using b1
      by (simp add: e power_int_def field_simps)
  qed
  show "\<bar>x\<bar> < 2 powi (exponent2 x + 1)"
  proof (cases "1 \<le> ?a")
    case True
    let ?m = "\<lfloor>?a\<rfloor>"
    have m: "0 < ?m" using True by linarith
    have e: "exponent2 x = bitlen ?m - 1" using True by (simp add: exponent2_def Let_def)
    have b1: "1 \<le> bitlen ?m" using m by (simp add: bitlen_alt_def)
    from bitlen_bounds [OF m] have "?m < 2 ^ nat (bitlen ?m)" by simp
    then have "?m + 1 \<le> 2 ^ nat (bitlen ?m)" by linarith
    then have "of_int (?m + 1) \<le> (2::rat) ^ nat (bitlen ?m)"
      by (metis of_int_le_iff of_int_numeral of_int_power)
    moreover have "?a < of_int (?m + 1)" by linarith
    ultimately have "?a < (2::rat) ^ nat (bitlen ?m)" by linarith
    then show ?thesis using b1 by (simp add: e power_int_def)
  next
    case False
    let ?m = "\<lceil>1 / ?a\<rceil>"
    have y: "1 < 1 / ?a" using False pos by simp
    then have m: "0 < ?m - 1" by linarith
    have e: "exponent2 x = - bitlen (?m - 1)" using False by (simp add: exponent2_def Let_def)
    have b1: "1 \<le> bitlen (?m - 1)" using m by (simp add: bitlen_alt_def)
    from bitlen_bounds [OF m] have "2 ^ nat (bitlen (?m - 1) - 1) \<le> ?m - 1" by simp
    then have "(2::rat) ^ nat (bitlen (?m - 1) - 1) \<le> of_int (?m - 1)"
      by (metis of_int_le_iff of_int_numeral of_int_power)
    moreover have "of_int (?m - 1) < 1 / ?a" by linarith
    ultimately have lt: "(2::rat) ^ nat (bitlen (?m - 1) - 1) < 1 / ?a" by linarith
    have up: "?a < 1 / 2 ^ nat (bitlen (?m - 1) - 1)"
      using lt pos by (simp add: field_simps)
    have "exponent2 x + 1 = - (bitlen (?m - 1) - 1)" by (simp add: e)
    then have "(2::rat) powi (exponent2 x + 1) = inverse (2 powi (bitlen (?m - 1) - 1))"
      by (simp only: power_int_minus)
    also have "\<dots> = 1 / 2 ^ nat (bitlen (?m - 1) - 1)"
      using b1 by (simp add: power_int_def inverse_eq_divide)
    finally show ?thesis using up by simp
  qed
qed

lemma fl_error: "\<bar>fl x - x\<bar> \<le> \<bar>x\<bar> / 2 ^ 53"
proof (cases "x = 0")
  case True
  then show ?thesis by (simp add: fl_def)
next
  case False
  let ?u = "(2::rat) powi (exponent2 x - 52)"
  have u: "0 < ?u" by simp
  have "fl x - x = (of_int (round_half_even (x / ?u)) - x / ?u) * ?u"
    using False u by (simp add: fl_def Let_def field_simps)
  then have "\<bar>fl x - x\<bar> = \<bar>of_int (round_half_even (x / ?u)) - x / ?u\<bar> * ?u"
    using u by (simp add: abs_mult)
  also have "\<dots> \<le> 1 / 2 * ?u"
    using round_half_even_near [of "x / ?u"] u by (intro mult_right_mono) simp_all
  also have "?u = 2 powi exponent2 x / 2 ^ 52"
    by (simp add: power_int_diff)
  also have "1 / 2 * (2 powi exponent2 x / 2 ^ 52) \<le> 1 / 2 * (\<bar>x\<bar> / 2 ^ 52)"
    using exponent2_bounds(1) [OF False] by (intro mult_left_mono divide_right_mono) simp_all
  finally show ?thesis by simp
qed

lemma fl_tenth: "fl (1 / 10) = 3602879701896397 / 2 ^ 55"
  by code_simp

subsection \<open>The image loop and the trend computation\<close>

lemma raster_pixels:
  "0 < d \<Longrightarrow> pixels (Gray (hd (raster d n)) (tl (raster d n))) = raster d n"
  by (cases d) (simp_all add: raster_def)

lemma hair_density_raster:
  assumes "0 < d" and "d \<le> n"
  shows "hair_density (Gray (hd (raster d n)) (tl (raster d n))) =
           fl (fl (fl (of_nat d) / fl (of_nat n)) * 100)"
proof -
  have px: "pixels (Gray (hd (raster d n)) (tl (raster d n))) = raster d n"
    using assms(1) by (rule raster_pixels)
  have th: "threshold_binary_inv 50 255 (raster d n) = replicate d 255 @ replicate (n - d) 0"
    by (simp add: threshold_binary_inv_def raster_def)
  show ?thesis
    unfolding hair_density_def px th using assms by (simp add: Let_def)
qed

lemma percent_images:
  "process_image percent_env ''dark29.png'' = Inr (fl (fl (fl 29 / fl 100) * 100))"
  "process_image percent_env ''dark48.png'' = Inr (fl (fl (fl 48 / fl 100) * 100))"
  "process_image percent_env ''dark57.png'' = Inr (fl (fl (fl 57 / fl 100) * 100))"
  "process_image percent_env ''dark60.png'' = Inr (fl (fl (fl 60 / fl 100) * 100))"
  "process_image percent_env ''dark80.png'' = Inr (fl (fl (fl 80 / fl 100) * 100))"
  "process_image percent_env ''before.png'' = Inr (fl (fl (fl 2000 / fl 4000) * 100))"
  "process_image percent_env ''after.png'' = Inr (fl (fl (fl 2001 / fl 4001) * 100))"
  by (simp_all add: process_image_def percent_env_def percent_store_def hair_density_raster,
      simp_all add: raster_def)

lemma percent_densities:
  "fl (fl (fl 29 / fl 100) * 100) = 8162774324609023 / 2 ^ 48"
  "fl (fl (fl 48 / fl 100) * 100) = 48"
  "fl (fl (fl 57 / fl 100) * 100) = 8022036836253695 / 2 ^ 47"
  "fl (fl (fl 60 / fl 100) * 100) = 60"
  "fl (fl (fl 80 / fl 100) * 100) = 80"
  "fl (fl (fl 2000 / fl 4000) * 100) = 50"
  "fl (fl (fl 2001 / fl 4001) * 100) = 3519316598338057 / 2 ^ 46"
  by code_simp+

lemma upt_1_4: "[Suc 0..<4] = [Suc 0, 2, 3]"
  by (simp add: upt_conv_Cons)

lemma py_round1_zero: "py_round1 0 = 0"
  by (simp add: py_round1_def round_half_even_def fl_zero)

lemma py_round1_decimal:
  "\<exists>n::int. py_round1 x = fl (of_int n / 10) \<and> \<bar>of_int n - fl (x * 10)\<bar> \<le> 1 / 2"
  unfolding py_round1_def using round_half_even_near [of "fl (x * 10)"] by blast

lemma np_mean_zeros: "np_mean [0, 0, 0] = 0"
  by (simp add: fl_zero)

lemma percentage_change_nonzero:
  "b \<noteq> 0 \<Longrightarrow> percentage_change b c = fl (fl (fl (c - b) / b) * 100)"
  by (simp add: percentage_change_def)

lemma percentage_change_accuracy:
  assumes "b \<noteq> 0"
  shows "\<bar>percentage_change b c - 100 * (c - b) / b\<bar> \<le> \<bar>100 * (c - b) / b\<bar> / 2 ^ 51"
proof -
  define eps :: rat where "eps = 1 / 2 ^ 53"
  define q where "q = (c - b) / b"
  define t1 where "t1 = fl (c - b)"
  define t2 where "t2 = fl (t1 / b)"
  define t3 where "t3 = fl (t2 * 100)"
  have eps: "0 < eps" "eps \<le> 1 / 4" by (simp_all add: eps_def)
  have err: "\<bar>fl y - y\<bar> \<le> \<bar>y\<bar> * eps" for y
    using fl_error [of y] by (simp add: eps_def)
  have bpos: "0 < \<bar>b\<bar>" using assms by simp
  have e1: "\<bar>t1 / b - q\<bar> \<le> \<bar>q\<bar> * eps"
  proof -
    have "t1 / b - q = (t1 - (c - b)) / b" by (simp add: q_def diff_divide_distrib)
    then have "\<bar>t1 / b - q\<bar> = \<bar>t1 - (c - b)\<bar> / \<bar>b\<bar>" by (simp add: abs_divide)
    also have "\<dots> \<le> \<bar>c - b\<bar> * eps / \<bar>b\<bar>"
      using err [of "c - b"] bpos by (simp add: t1_def divide_right_mono)
    finally show ?thesis by (simp add: q_def abs_divide)
  qed
  then have a1: "\<bar>t1 / b\<bar> \<le> \<bar>q\<bar> * (1 + eps)"
    by (simp add: algebra_simps; linarith?)
  have "\<bar>t2 - t1 / b\<bar> \<le> \<bar>t1 / b\<bar> * eps"
    using err [of "t1 / b"] by (simp add: t2_def)
  also have "\<dots> \<le> \<bar>q\<bar> * (1 + eps) * eps"
    using a1 eps by (intro mult_right_mono) simp_all
  finally have e2': "\<bar>t2 - t1 / b\<bar> \<le> \<bar>q\<bar> * (1 + eps) * eps" .
  have e2: "\<bar>t2 - q\<bar> \<le> \<bar>q\<bar> * (2 * eps + eps * eps)"
    using e1 e2' by (simp add: algebra_simps; linarith?)
  then have a2: "\<bar>t2\<bar> \<le> \<bar>q\<bar> * (1 + 2 * eps + eps * eps)"
    by (simp add: algebra_simps; linarith?)
  have "\<bar>t3 - t2 * 100\<bar> \<le> \<bar>t2 * 100\<bar> * eps"
    using err [of "t2 * 100"] by (simp add: t3_def)
  also have "\<dots> = \<bar>t2\<bar> * (100 * eps)" by (simp add: abs_mult)
  also have "\<dots> \<le> \<bar>q\<bar> * (1 + 2 * eps + eps * eps) * (100 * eps)"
    using a2 eps by (intro mult_right_mono) simp_all
  finally have e3': "\<bar>t3 - t2 * 100\<bar> \<le> \<bar>q\<bar> * (1 + 2 * eps + eps * eps) * (100 * eps)" .
  have "t2 * 100 - q * 100 = (t2 - q) * 100"
    by (simp only: left_diff_distrib)
  then have "\<bar>t2 * 100 - q * 100\<bar> = \<bar>t2 - q\<bar> * 100"
    by (simp only: abs_mult abs_numeral)
  with e2 have e3'': "\<bar>t2 * 100 - q * 100\<bar> \<le> \<bar>q\<bar> * (2 * eps + eps * eps) * 100" by simp
  have "\<bar>t3 - q * 100\<bar> \<le> \<bar>q\<bar> * (1 + 2 * eps + eps * eps) * (100 * eps)
      + \<bar>q\<bar> * (2 * eps + eps * eps) * 100"
    using e3' e3'' by linarith
  also have "\<dots> = \<bar>q\<bar> * 100 * (3 * eps + 3 * eps * eps + eps * eps * eps)"
    by (simp add: algebra_simps)
  also have "\<dots> \<le> \<bar>q\<bar> * 100 * (4 * eps)"
  proof (intro mult_left_mono)
    have "eps * eps \<le> eps * (1 / 4)" using eps by (intro mult_left_mono) simp_all
    moreover have "eps * eps * eps \<le> eps * (1 / 4) * (1 / 4)"
      using eps by (intro mult_mono) simp_all
    ultimately show "3 * eps + 3 * eps * eps + eps * eps * eps \<le> 4 * eps" using eps by linarith
  qed simp
  finally have "\<bar>t3 - q * 100\<bar> \<le> \<bar>q\<bar> * 100 * (4 * eps)" .
  moreover have "percentage_change b c = t3"
    using assms by (simp add: percentage_change_def t3_def t2_def t1_def)
  moreover have "100 * (c - b) / b = q * 100" by (simp add: q_def)
  ultimately show ?thesis by (simp add: eps_def abs_mult)
qed

lemma process_images_Inr_iff:
  "process_images env urls acc = Inr ds \<longleftrightarrow>
     (\<forall>u\<in>set urls. \<not> isl (process_image env u)) \<and>
     ds = acc @ map (\<lambda>u. projr (process_image env u)) urls"
proof (induction urls arbitrary: acc)
  case Nil
  then show ?case by auto
next
  case (Cons u urls)
  show ?case
  proof (cases "process_image env u")
    case (Inl e)
    then show ?thesis by auto
  next
    case (Inr d)
    then show ?thesis using Cons.IH [of "acc @ [d]"] by auto
  qed
qed

lemma length_process_images:
  "process_images env urls [] = Inr ds \<Longrightarrow> length ds = length urls"
  by (simp add: process_images_Inr_iff)

lemma process_images_first_failure:
  "u \<in> set urls \<Longrightarrow> process_image env u = Inl e \<Longrightarrow>
     \<exists>u' e'. u' \<in> set urls \<and> process_image env u' = Inl e' \<and>
       process_images env urls acc = Inl (''Failed to process image '' @ u' @ '': '' @ e')"
proof (induction urls arbitrary: acc)
  case Nil
  then show ?case by simp
next
  case (Cons a urls)
  show ?case
  proof (cases "process_image env a")
    case (Inl e0)
    then show ?thesis by auto
  next
    case (Inr d)
    with Cons.prems have "u \<in> set urls" by auto
    from Cons.IH [OF this Cons.prems(2), of "acc @ [d]"] Inr show ?thesis by auto
  qed
qed

lemma analyze_hair_density_Inr:
  "length image_urls = 4 \<Longrightarrow> length timestamps = 4 \<Longrightarrow>
   process_images env image_urls [] = Inr ds \<Longrightarrow>
   analyze_hair_density env image_urls timestamps = Inr (density_trend ds timestamps)"
  by (simp add: analyze_hair_density_def length_process_images)

lemma results_density_trend:
  "results (density_trend ds ts) =
     map (period_result (map (\<lambda>i. ds ! i) (argsort ts))) [1, 2, 3]"
  by (simp add: density_trend_def Let_def upt_1_4)

lemma sorted_densities_nth:
  "length ts = 4 \<Longrightarrow> i < 4 \<Longrightarrow> map (\<lambda>i. ds ! i) (argsort ts) ! i = ds ! (argsort ts ! i)"
  by (simp add: length_argsort)

lemma percentageChange_period_result:
  "percentageChange (period_result sd i) = py_round1 (percentage_change (sd ! 0) (sd ! i))"
  by (simp add: period_result_def Let_def)

lemma status_period_result:
  "status (period_result sd i) = trend_status (percentage_change (sd ! 0) (sd ! i))"
  by (simp add: period_result_def Let_def)

lemma week_period_result: "week (period_result sd i) = i + 1"
  by (simp add: period_result_def Let_def)

lemma sorted_samples_sort_key:
  assumes "length xs = length ts"
  shows "map (\<lambda>i. (xs ! i, ts ! i)) (argsort ts) = sort_key snd (zip xs ts)"
proof -
  have keys: "map snd (zip xs ts) = ts"
    using assms by (simp add: map_snd_zip)
  have "map (\<lambda>i. (xs ! i, ts ! i)) (argsort ts) = map (\<lambda>i. zip xs ts ! i) (argsort ts)"
    using assms by (intro map_cong refl) (simp add: set_argsort)
  also have "\<dots> = sort_key snd (zip xs ts)"
    using map_nth_argsort [of "zip xs ts" snd] by (simp only: keys)
  finally show ?thesis .
qed

lemma sorted_densities_sort_key:
  assumes "length urls = length ts"
  shows "map (\<lambda>i. map d urls ! i) (argsort ts) = map (d \<circ> fst) (sort_key snd (zip urls ts))"
proof -
  have "map (\<lambda>i. map d urls ! i) (argsort ts) = map (d \<circ> fst) (map (\<lambda>i. (urls ! i, ts ! i)) (argsort ts))"
    using assms by (simp add: set_argsort)
  then show ?thesis
    by (simp only: sorted_samples_sort_key [OF assms])
qed

lemma density_trend_cong:
  "map (\<lambda>i. ds ! i) (argsort ts) = map (\<lambda>i. ds' ! i) (argsort ts') \<Longrightarrow>
   density_trend ds ts = density_trend ds' ts'"
  by (simp add: density_trend_def)

lemma labels_sentinel: "male_labels ! 0 = ''non-scalp''" "female_labels ! 0 = ''non-scalp''"
  by (simp_all add: male_labels_def female_labels_def)

lemma labels_nonempty: "male_labels \<noteq> []" "female_labels \<noteq> []"
  by (simp_all add: male_labels_def female_labels_def)

subsection \<open>Evaluations in the test environments\<close>

lemma argsort_dates:
  "argsort [''2024-01-01'', ''2024-01-08'', ''2024-01-15'', ''2024-01-22''] = [0, 1, 2, 3]"
  by code_simp

lemma sample_densities:
  "hair_density (Gray 200 [200]) = 0"
  "hair_density (Gray 0 [0, 200, 200]) = 50"
  "hair_density (Gray 0 [200, 200, 200]) = 25"
  "hair_density (Gray 0 [0, 0, 200]) = 75"
  "hair_density (Gray 0 [0, 0, 0]) = 100"
  by code_simp+

lemma sample_image_values:
  "process_image sample_env ''blank.png'' = Inr 0"
  "process_image sample_env ''week1.png'' = Inr 50"
  "process_image sample_env ''week2.png'' = Inr 25"
  "process_image sample_env ''week3.png'' = Inr 75"
  "process_image sample_env ''week4.png'' = Inr 100"
  by (simp_all add: process_image_def sample_env_def sample_store_def sample_densities)

lemma sample_corrupt:
  "process_image sample_env ''corrupt.png'' = Inl ''Failed to decode image from corrupt.png''"
  by (simp add: process_image_def sample_env_def sample_store_def)

lemma sample_images:
  "process_images sample_env [''week1.png'', ''week2.png'', ''week3.png'', ''week4.png''] []
     = Inr [50, 25, 75, 100]"
  by (simp add: sample_image_values)

lemma percent_image_values:
  "process_image percent_env ''dark29.png'' = Inr (8162774324609023 / 2 ^ 48)"
  "process_image percent_env ''dark48.png'' = Inr 48"
  "process_image percent_env ''dark57.png'' = Inr (8022036836253695 / 2 ^ 47)"
  "process_image percent_env ''dark60.png'' = Inr 60"
  "process_image percent_env ''dark80.png'' = Inr 80"
  "process_image percent_env ''before.png'' = Inr 50"
  "process_image percent_env ''after.png'' = Inr (3519316598338057 / 2 ^ 46)"
  by (simp_all only: percent_images percent_densities)

lemma sample_trend:
  "density_trend [50, 25, 75, 100]
     [''2024-01-01'', ''2024-01-08'', ''2024-01-15'', ''2024-01-22''] =
      \<lparr>results =
            [\<lparr>week = 2, percentageChange = - 50, status = Worsened\<rparr>,
             \<lparr>week = 3, percentageChange = 50, status = Improved\<rparr>,
             \<lparr>week = 4, percentageChange = 100, status = Improved\<rparr>],
          overall_status = Improved,
          comparisonImageUrl = None\<rparr>"
  by code_simp

lemma sample_trend_unparsed:
  "density_trend [50, 25, 75, 100] [''not-a-date'', '''', ''next tuesday'', ''31/12/2024''] =
     \<lparr>results =
        [\<lparr>week = 2, percentageChange = 300, status = Improved\<rparr>,
         \<lparr>week = 3, percentageChange = 200, status = Improved\<rparr>,
         \<lparr>week = 4, percentageChange = 100, status = Improved\<rparr>],
      overall_status = Improved,
      comparisonImageUrl = None\<rparr>"
  by code_simp




lemma boundary_trend:
  "density_trend [60, 8022036836253695 / 2 ^ 47, 60, 60]
     [''2024-01-01'', ''2024-01-08'', ''2024-01-15'', ''2024-01-22''] =
      \<lparr>results =
         [\<lparr>week = 2, percentageChange = - 5, status = Worsened\<rparr>,
          \<lparr>week = 3, percentageChange = 0, status = Stable\<rparr>,
          \<lparr>week = 4, percentageChange = 0, status = Stable\<rparr>],
       overall_status = Stable,
       comparisonImageUrl = None\<rparr>"
  by code_simp

lemma last_digit_trend:
  "density_trend [80, 8162774324609023 / 2 ^ 48, 80, 80]
     [''2024-01-01'', ''2024-01-08'', ''2024-01-15'', ''2024-01-22''] =
      \<lparr>results =
         [\<lparr>week = 2, percentageChange = - (4482489004117197 / 2 ^ 46), status = Worsened\<rparr>,
          \<lparr>week = 3, percentageChange = 0, status = Stable\<rparr>,
          \<lparr>week = 4, percentageChange = 0, status = Stable\<rparr>],
       overall_status = Worsened,
       comparisonImageUrl = None\<rparr>"
  by code_simp

lemma rounded_trend:
  "density_trend [48, 8022036836253695 / 2 ^ 47, 48, 48]
     [''2024-01-01'', ''2024-01-08'', ''2024-01-15'', ''2024-01-22''] =
      \<lparr>results =
         [\<lparr>week = 2, percentageChange = 5263582064489267 / 2 ^ 48, status = Improved\<rparr>,
          \<lparr>week = 3, percentageChange = 0, status = Stable\<rparr>,
          \<lparr>week = 4, percentageChange = 0, status = Stable\<rparr>],
       overall_status = Improved,
       comparisonImageUrl = None\<rparr>"
  by code_simp

lemma decimal_doubles:
  "fl (- 637 / 10) = - (4482489004117197 / 2 ^ 46)"
  "fl (- 638 / 10) = - (4489525878534963 / 2 ^ 46)"
  "fl (187 / 10) = 5263582064489267 / 2 ^ 48"
  by code_simp+

text \<open>
  The mean of the stored changes 0.1, 0.2, -0.3 is 1.85e-17 in doubles, and that of
  -7.9, -7.7, 0.6 is -5.000000000000001.
\<close>

lemma np_mean_examples:
  "np_mean [fl (1 / 10), fl (2 / 10), fl (- 3 / 10)] = 6004799503160661 / 2 ^ 108"
  "trend_status (np_mean [fl (1 / 10), fl (2 / 10), fl (- 3 / 10)]) = Improved"
  "trend_status (np_mean [fl (- 79 / 10), fl (- 77 / 10), fl (6 / 10)]) = Worsened"
  by code_simp+

lemma chronological_example:
  "period_result [10, 12, 9, 20] (Suc 0) = \<lparr>week = 2, percentageChange = 20, status = Improved\<rparr>"
  "period_result [10, 12, 9, 20] 2 = \<lparr>week = 3, percentageChange = - 10, status = Worsened\<rparr>"
  "period_result [10, 12, 9, 20] 3 = \<lparr>week = 4, percentageChange = 100, status = Improved\<rparr>"
  "trend_status (np_mean [20, - 10, 100]) = Improved"
  by code_simp+

subsection \<open>Claims about \<open>analyze_hair_density\<close>\<close>

text \<open>
  C4. When all four images are processed and the density score of the baseline sample (the
  first index in timestamp order) is 0, the call returns three trend points whose
  percentage change is 0.0 and whose status is Stable, and the overall status is Stable.
\<close>

theorem zero_baseline_all_stable:
  assumes "length image_urls = 4" and "length timestamps = 4"
    and "process_images env image_urls [] = Inr ds"
    and "ds ! (argsort timestamps ! 0) = 0"
  shows "analyze_hair_density env image_urls timestamps =
           Inr \<lparr>results =
                  [\<lparr>week = 2, percentageChange = 0, status = Stable\<rparr>,
                   \<lparr>week = 3, percentageChange = 0, status = Stable\<rparr>,
                   \<lparr>week = 4, percentageChange = 0, status = Stable\<rparr>],
                overall_status = Stable,
                comparisonImageUrl = None\<rparr>"
proof -
  let ?sd = "map (\<lambda>i. ds ! i) (argsort timestamps)"
  have base: "?sd ! 0 = 0"
    using assms(2,4) by (simp add: sorted_densities_nth)
  have point: "period_result ?sd i = \<lparr>week = i + 1, percentageChange = 0, status = Stable\<rparr>" for i
    by (simp add: period_result_def percentage_change_def base py_round1_zero trend_status_def
        del: nth_map)
  have "density_trend ds timestamps =
          \<lparr>results =
             [\<lparr>week = 2, percentageChange = 0, status = Stable\<rparr>,
              \<lparr>week = 3, percentageChange = 0, status = Stable\<rparr>,
              \<lparr>week = 4, percentageChange = 0, status = Stable\<rparr>],
           overall_status = Stable,
           comparisonImageUrl = None\<rparr>"
    by (simp add: density_trend_def Let_def upt_1_4 point fl_zero trend_status_def)
  with analyze_hair_density_Inr [OF assms(1-3)] show ?thesis by simp
qed

theorem zero_baseline_all_stable_witness:
  "length [''blank.png'', ''week1.png'', ''week2.png'', ''week3.png''] = 4
   \<and> length [''2024-01-01'', ''2024-01-08'', ''2024-01-15'', ''2024-01-22''] = 4
   \<and> process_images sample_env [''blank.png'', ''week1.png'', ''week2.png'', ''week3.png''] []
       = Inr [0, 50, 25, 75]
   \<and> [0, 50, 25, 75 :: rat] ! (argsort [''2024-01-01'', ''2024-01-08'', ''2024-01-15'', ''2024-01-22''] ! 0) = 0
   \<and> analyze_hair_density sample_env
        [''blank.png'', ''week1.png'', ''week2.png'', ''week3.png''] [''2024-01-01'', ''2024-01-08'', ''2024-01-15'', ''2024-01-22''] =
        Inr \<lparr>results =
               [\<lparr>week = 2, percentageChange = 0, status = Stable\<rparr>,
                \<lparr>week = 3, percentageChange = 0, status = Stable\<rparr>,
                \<lparr>week = 4, percentageChange = 0, status = Stable\<rparr>],
             overall_status = Stable,
             comparisonImageUrl = None\<rparr>"
proof -
  have p: "process_images sample_env [''blank.png'', ''week1.png'', ''week2.png'', ''week3.png''] []
       = Inr [0, 50, 25, 75]"
    by (simp add: sample_image_values)
  have a: "argsort [''2024-01-01'', ''2024-01-08'', ''2024-01-15'', ''2024-01-22''] = [0, 1, 2, 3]"
    by (rule argsort_dates)
  have z: "[0, 50, 25, 75 :: rat] ! (argsort [''2024-01-01'', ''2024-01-08'', ''2024-01-15'', ''2024-01-22''] ! 0) = 0"
    by (simp add: a)
  show ?thesis
    using zero_baseline_all_stable [OF _ _ p z] p z by simp
qed

text \<open>
  C5, as stated: the stored change equals \<open>100 * (sample - baseline) / baseline\<close> rounded
  to one decimal place. For a baseline of 80 dark pixels in 100 and a later photograph
  of 29 dark pixels in 100 the density scores are 80.0 and 28.999999999999996, the
  change computed in doubles is -63.74999999999999 and the stored value is the double
  -63.7; the exact formula gives -63.75 on the pixel counts and slightly less on these
  two scores, and both round to -63.8.
\<close>

theorem exact_formula_counterexample:
  "analyze_hair_density percent_env
     [''dark80.png'', ''dark29.png'', ''dark80.png'', ''dark80.png'']
     [''2024-01-01'', ''2024-01-08'', ''2024-01-15'', ''2024-01-22''] =
     Inr \<lparr>results =
            [\<lparr>week = 2, percentageChange = fl (- 637 / 10), status = Worsened\<rparr>,
             \<lparr>week = 3, percentageChange = 0, status = Stable\<rparr>,
             \<lparr>week = 4, percentageChange = 0, status = Stable\<rparr>],
          overall_status = Worsened,
          comparisonImageUrl = None\<rparr>
   \<and> process_images percent_env
        [''dark80.png'', ''dark29.png'', ''dark80.png'', ''dark80.png''] []
       = Inr [80, 8162774324609023 / 2 ^ 48, 80, 80]
   \<and> spec_percentage_change 80 (8162774324609023 / 2 ^ 48) = - 638 / 10
   \<and> spec_percentage_change 80 29 = - 638 / 10
   \<and> fl (- 637 / 10) \<noteq> - 638 / 10
   \<and> fl (- 637 / 10) \<noteq> fl (- 638 / 10)"
proof -
  let ?U = "[''dark80.png'', ''dark29.png'', ''dark80.png'', ''dark80.png'']"
  let ?T = "[''2024-01-01'', ''2024-01-08'', ''2024-01-15'', ''2024-01-22'']"
  have p: "process_images percent_env ?U [] = Inr [80, 8162774324609023 / 2 ^ 48, 80, 80]"
    by (simp add: percent_image_values)
  have run: "analyze_hair_density percent_env ?U ?T =
      Inr (density_trend [80, 8162774324609023 / 2 ^ 48, 80, 80] ?T)"
    by (rule analyze_hair_density_Inr [OF _ _ p]) simp_all
  have s1: "spec_percentage_change 80 (8162774324609023 / 2 ^ 48) = - 638 / 10"
    by code_simp
  have s2: "spec_percentage_change 80 29 = - 638 / 10"
    by code_simp
  have r: "analyze_hair_density percent_env ?U ?T =
     Inr \<lparr>results =
            [\<lparr>week = 2, percentageChange = fl (- 637 / 10), status = Worsened\<rparr>,
             \<lparr>week = 3, percentageChange = 0, status = Stable\<rparr>,
             \<lparr>week = 4, percentageChange = 0, status = Stable\<rparr>],
          overall_status = Worsened,
          comparisonImageUrl = None\<rparr>"
    by (simp only: run last_digit_trend decimal_doubles)
  have n1: "fl (- 637 / 10) \<noteq> - 638 / 10"
    unfolding decimal_doubles by simp
  have n2: "fl (- 637 / 10) \<noteq> fl (- 638 / 10)"
    unfolding decimal_doubles by simp
  show ?thesis
    by (intro conjI r p s1 s2 n1 n2)
qed

text \<open>
  C5, amended: with a nonzero baseline, each stored change is NumPy's one-decimal
  rounding of the change computed in double arithmetic as
  \<open>((sample - baseline) / baseline) * 100\<close>, every operation rounded to the nearest double.
  That double differs from the exact \<open>100 * (sample - baseline) / baseline\<close> by a relative
  error of at most \<open>2^-51\<close>, and the rounding returns the double nearest to \<open>n/10\<close> for an
  integer \<open>n\<close> within one half of ten times its argument. For the densities 10, 12, 9, 20
  in chronological order the changes are 20.0 (Improved), -10.0 (Worsened) and 100.0
  (Improved), and the overall status is Improved.
\<close>

theorem percentage_change_in_doubles:
  "(length image_urls = 4 \<and> length timestamps = 4
      \<and> process_images env image_urls [] = Inr ds
      \<and> ds ! (argsort timestamps ! 0) \<noteq> 0 \<longrightarrow>
      (\<exists>r. analyze_hair_density env image_urls timestamps = Inr r
        \<and> map week (results r) = [2, 3, 4]
        \<and> map percentageChange (results r) =
            map (\<lambda>i. py_round1
                   (fl (fl (fl (ds ! (argsort timestamps ! i) - ds ! (argsort timestamps ! 0))
                              / ds ! (argsort timestamps ! 0)) * 100)))
              [1, 2, 3]))
   \<and> (b \<noteq> 0 \<longrightarrow>
        \<bar>fl (fl (fl (c - b) / b) * 100) - 100 * (c - b) / b\<bar> \<le> \<bar>100 * (c - b) / b\<bar> / 2 ^ 51)
   \<and> (\<exists>n::int. py_round1 x = fl (of_int n / 10) \<and> \<bar>of_int n - fl (x * 10)\<bar> \<le> 1 / 2)
   \<and> (length ts = 4 \<and> sorted ts \<longrightarrow>
        density_trend [10, 12, 9, 20] ts =
          \<lparr>results =
             [\<lparr>week = 2, percentageChange = 20, status = Improved\<rparr>,
              \<lparr>week = 3, percentageChange = - 10, status = Worsened\<rparr>,
              \<lparr>week = 4, percentageChange = 100, status = Improved\<rparr>],
           overall_status = Improved,
           comparisonImageUrl = None\<rparr>)"
proof (intro conjI impI)
  assume h: "length image_urls = 4 \<and> length timestamps = 4
      \<and> process_images env image_urls [] = Inr ds
      \<and> ds ! (argsort timestamps ! 0) \<noteq> 0"
  let ?sd = "map (\<lambda>i. ds ! i) (argsort timestamps)"
  let ?b = "ds ! (argsort timestamps ! 0)"
  from h have run: "analyze_hair_density env image_urls timestamps = Inr (density_trend ds timestamps)"
    by (simp add: analyze_hair_density_Inr)
  have nth: "?sd ! i = ds ! (argsort timestamps ! i)" if "i < 4" for i
    using h that by (simp add: sorted_densities_nth)
  have pc: "percentageChange (period_result ?sd i) =
      py_round1 (fl (fl (fl (ds ! (argsort timestamps ! i) - ?b) / ?b) * 100))" if "i < 4" for i
  proof -
    from h have "percentage_change ?b (ds ! (argsort timestamps ! i)) =
        fl (fl (fl (ds ! (argsort timestamps ! i) - ?b) / ?b) * 100)"
      by (simp add: percentage_change_nonzero)
    with that show ?thesis
      by (simp add: percentageChange_period_result nth del: nth_map)
  qed
  have weeks: "map week (results (density_trend ds timestamps)) = [2, 3, 4]"
    by (simp add: results_density_trend week_period_result)
  have changes: "map percentageChange (results (density_trend ds timestamps)) =
      map (\<lambda>i. py_round1 (fl (fl (fl (ds ! (argsort timestamps ! i) - ?b) / ?b) * 100))) [1, 2, 3]"
    using pc [of 1] pc [of 2] pc [of 3] by (simp add: results_density_trend)
  show "\<exists>r. analyze_hair_density env image_urls timestamps = Inr r
        \<and> map week (results r) = [2, 3, 4]
        \<and> map percentageChange (results r) =
            map (\<lambda>i. py_round1 (fl (fl (fl (ds ! (argsort timestamps ! i) - ?b) / ?b) * 100)))
              [1, 2, 3]"
    by (rule exI [of _ "density_trend ds timestamps"]) (intro conjI run weeks changes)
next
  assume nz: "b \<noteq> 0"
  from percentage_change_accuracy [OF nz, of c]
  show "\<bar>fl (fl (fl (c - b) / b) * 100) - 100 * (c - b) / b\<bar> \<le> \<bar>100 * (c - b) / b\<bar> / 2 ^ 51"
    by (simp only: percentage_change_nonzero [OF nz])
next
  show "\<exists>n::int. py_round1 x = fl (of_int n / 10) \<and> \<bar>of_int n - fl (x * 10)\<bar> \<le> 1 / 2"
    by (rule py_round1_decimal)
next
  assume h: "length ts = 4 \<and> sorted ts"
  then have idx: "argsort ts = [0, 1, 2, 3]"
    by (simp add: argsort_sorted_id upt_conv_Cons)
  have sd: "map (\<lambda>i. [10, 12, 9, 20 :: rat] ! i) [0, 1, 2, 3] = [10, 12, 9, 20]"
    by simp
  have res: "map (period_result [10, 12, 9, 20]) [1..<4] =
      [\<lparr>week = 2, percentageChange = 20, status = Improved\<rparr>,
       \<lparr>week = 3, percentageChange = - 10, status = Worsened\<rparr>,
       \<lparr>week = 4, percentageChange = 100, status = Improved\<rparr>]"
    by (simp add: upt_1_4 chronological_example)
  have changes: "map percentageChange
      [\<lparr>week = 2, percentageChange = 20, status = Improved\<rparr>,
       \<lparr>week = 3, percentageChange = - 10, status = Worsened\<rparr>,
       \<lparr>week = 4, percentageChange = 100, status = Improved\<rparr>] = [20, - 10, 100]"
    by simp
  show "density_trend [10, 12, 9, 20] ts =
          \<lparr>results =
             [\<lparr>week = 2, percentageChange = 20, status = Improved\<rparr>,
              \<lparr>week = 3, percentageChange = - 10, status = Worsened\<rparr>,
              \<lparr>week = 4, percentageChange = 100, status = Improved\<rparr>],
           overall_status = Improved,
           comparisonImageUrl = None\<rparr>"
    by (simp only: density_trend_def idx Let_def sd res changes chronological_example(4))
qed

theorem percentage_change_in_doubles_witness:
  "process_images percent_env [''dark48.png'', ''dark57.png'', ''dark48.png'', ''dark48.png''] []
     = Inr [48, 8022036836253695 / 2 ^ 47, 48, 48]
   \<and> (\<exists>r. analyze_hair_density percent_env
              [''dark48.png'', ''dark57.png'', ''dark48.png'', ''dark48.png'']
              [''2024-01-01'', ''2024-01-08'', ''2024-01-15'', ''2024-01-22''] = Inr r
          \<and> map week (results r) = [2, 3, 4]
          \<and> map percentageChange (results r) = [fl (187 / 10), 0, 0])
   \<and> \<bar>fl (fl (fl (8022036836253695 / 2 ^ 47 - 48) / 48) * 100)
        - 100 * (8022036836253695 / 2 ^ 47 - 48) / 48\<bar>
        \<le> \<bar>100 * (8022036836253695 / 2 ^ 47 - 48) / 48\<bar> / 2 ^ 51
   \<and> (\<exists>n::int. py_round1 (5277655813324799 / 2 ^ 48) = fl (of_int n / 10)
          \<and> \<bar>of_int n - fl (5277655813324799 / 2 ^ 48 * 10)\<bar> \<le> 1 / 2)
   \<and> density_trend [10, 12, 9, 20]
        [''2024-01-01'', ''2024-01-08'', ''2024-01-15'', ''2024-01-22''] =
          \<lparr>results =
             [\<lparr>week = 2, percentageChange = 20, status = Improved\<rparr>,
              \<lparr>week = 3, percentageChange = - 10, status = Worsened\<rparr>,
              \<lparr>week = 4, percentageChange = 100, status = Improved\<rparr>],
           overall_status = Improved,
           comparisonImageUrl = None\<rparr>"
proof -
  let ?U = "[''dark48.png'', ''dark57.png'', ''dark48.png'', ''dark48.png'']"
  let ?T = "[''2024-01-01'', ''2024-01-08'', ''2024-01-15'', ''2024-01-22'']"
  let ?ds = "[48, 8022036836253695 / 2 ^ 47, 48, 48 :: rat]"
  have p: "process_images percent_env ?U [] = Inr ?ds"
    by (simp add: percent_image_values)
  have s: "sorted ?T"
    by code_simp
  have nz: "?ds ! (argsort ?T ! 0) \<noteq> 0"
    by (simp add: argsort_dates)
  have hyp: "length ?U = 4 \<and> length ?T = 4
      \<and> process_images percent_env ?U [] = Inr ?ds
      \<and> ?ds ! (argsort ?T ! 0) \<noteq> 0"
    using p nz by simp
  note inst = percentage_change_in_doubles
      [where image_urls = ?U and timestamps = ?T and env = percent_env and ds = ?ds
         and b = 48 and c = "8022036836253695 / 2 ^ 47"
         and x = "5277655813324799 / 2 ^ 48" and ts = ?T]
  have idx: "argsort ?T ! 0 = 0" "argsort ?T ! 1 = 1" "argsort ?T ! 2 = 2" "argsort ?T ! 3 = 3"
    by (simp_all add: argsort_dates)
  have nth: "?ds ! 0 = 48" "?ds ! 1 = 8022036836253695 / 2 ^ 47" "?ds ! 2 = 48" "?ds ! 3 = 48"
    by simp_all
  have v: "py_round1 (fl (fl (fl (8022036836253695 / 2 ^ 47 - 48) / 48) * 100)) = fl (187 / 10)"
    "py_round1 (fl (fl (fl (48 - 48) / 48) * 100)) = 0"
    by code_simp+
  have vals: "map (\<lambda>i. py_round1
                (fl (fl (fl (?ds ! (argsort ?T ! i) - ?ds ! (argsort ?T ! 0))
                           / ?ds ! (argsort ?T ! 0)) * 100)))
           [1, 2, 3] = [fl (187 / 10), 0, 0]"
    by (simp only: list.map idx nth v)
  have e: "(\<exists>r. analyze_hair_density percent_env ?U ?T = Inr r
          \<and> map week (results r) = [2, 3, 4]
          \<and> map percentageChange (results r) = [fl (187 / 10), 0, 0])"
    using inst [THEN conjunct1, THEN mp, OF hyp] unfolding vals .
  have acc: "\<bar>fl (fl (fl (8022036836253695 / 2 ^ 47 - 48) / 48) * 100)
        - 100 * (8022036836253695 / 2 ^ 47 - 48) / 48\<bar>
        \<le> \<bar>100 * (8022036836253695 / 2 ^ 47 - 48) / 48\<bar> / 2 ^ 51"
    by (rule inst [THEN conjunct2, THEN conjunct1, THEN mp]) simp
  have dec: "\<exists>n::int. py_round1 (5277655813324799 / 2 ^ 48) = fl (of_int n / 10)
          \<and> \<bar>of_int n - fl (5277655813324799 / 2 ^ 48 * 10)\<bar> \<le> 1 / 2"
    by (rule inst [THEN conjunct2, THEN conjunct2, THEN conjunct1])
  have ex: "density_trend [10, 12, 9, 20] ?T =
          \<lparr>results =
             [\<lparr>week = 2, percentageChange = 20, status = Improved\<rparr>,
              \<lparr>week = 3, percentageChange = - 10, status = Worsened\<rparr>,
              \<lparr>week = 4, percentageChange = 100, status = Improved\<rparr>],
           overall_status = Improved,
           comparisonImageUrl = None\<rparr>"
    by (rule inst [THEN conjunct2, THEN conjunct2, THEN conjunct2, THEN mp]) (simp add: s)
  from p e acc dec ex show ?thesis by (intro conjI)
qed

text \<open>
  C3, as stated: a percentage change of exactly -5.0 classifies as Stable. For a baseline
  of 60 dark pixels in 100 and a later photograph of 57 dark pixels in 100 the exact
  change is -5 and the returned trend point carries the percentage change -5.0, yet its
  status is Worsened: the status is computed from the double before rounding, which is
  -5.000000000000012.
\<close>

theorem stored_change_rule_counterexample:
  "analyze_hair_density percent_env
     [''dark60.png'', ''dark57.png'', ''dark60.png'', ''dark60.png'']
     [''2024-01-01'', ''2024-01-08'', ''2024-01-15'', ''2024-01-22''] =
     Inr \<lparr>results =
            [\<lparr>week = 2, percentageChange = - 5, status = Worsened\<rparr>,
             \<lparr>week = 3, percentageChange = 0, status = Stable\<rparr>,
             \<lparr>week = 4, percentageChange = 0, status = Stable\<rparr>],
          overall_status = Stable,
          comparisonImageUrl = None\<rparr>
   \<and> 100 * (57 - 60) / 60 = (- 5 :: rat)
   \<and> trend_status (- 5) = Stable"
proof -
  let ?U = "[''dark60.png'', ''dark57.png'', ''dark60.png'', ''dark60.png'']"
  let ?T = "[''2024-01-01'', ''2024-01-08'', ''2024-01-15'', ''2024-01-22'']"
  have p: "process_images percent_env ?U [] = Inr [60, 8022036836253695 / 2 ^ 47, 60, 60]"
    by (simp add: percent_image_values)
  have run: "analyze_hair_density percent_env ?U ?T =
      Inr (density_trend [60, 8022036836253695 / 2 ^ 47, 60, 60] ?T)"
    by (rule analyze_hair_density_Inr [OF _ _ p]) simp_all
  have r: "analyze_hair_density percent_env ?U ?T =
     Inr \<lparr>results =
            [\<lparr>week = 2, percentageChange = - 5, status = Worsened\<rparr>,
             \<lparr>week = 3, percentageChange = 0, status = Stable\<rparr>,
             \<lparr>week = 4, percentageChange = 0, status = Stable\<rparr>],
          overall_status = Stable,
          comparisonImageUrl = None\<rparr>"
    by (simp only: run boundary_trend)
  have e: "100 * (57 - 60) / 60 = (- 5 :: rat)"
    by simp
  have t: "trend_status (- 5) = Stable"
    by (simp add: trend_status_def)
  show ?thesis
    by (intro conjI r e t)
qed

text \<open>
  C3, amended: the status rule is Improved exactly when the value is greater than 0,
  Worsened exactly when it is less than -5, Stable otherwise, so that the values -5.0 and
  0.0 themselves are Stable. The values it is applied to are the percentage change as
  computed in the loop, before it is rounded for storage, and the mean of the three
  stored changes as \<open>np.mean\<close> computes it; the stored \<open>percentageChange\<close> of a point need
  not satisfy the rule with the point's status.
\<close>

theorem three_way_status_rule:
  "(trend_status c = Improved \<longleftrightarrow> 0 < c)
   \<and> (trend_status c = Worsened \<longleftrightarrow> c < - 5)
   \<and> (trend_status c = Stable \<longleftrightarrow> - 5 \<le> c \<and> c \<le> 0)
   \<and> trend_status (- 5) = Stable
   \<and> trend_status 0 = Stable
   \<and> map status (results (density_trend ds ts)) =
        map (\<lambda>i. trend_status
               (percentage_change (map (\<lambda>j. ds ! j) (argsort ts) ! 0)
                                  (map (\<lambda>j. ds ! j) (argsort ts) ! i)))
          [1, 2, 3]
   \<and> overall_status (density_trend ds ts) =
        trend_status (np_mean (map percentageChange (results (density_trend ds ts))))"
proof -
  have "overall_status (density_trend ds ts) =
        trend_status (np_mean (map percentageChange (results (density_trend ds ts))))"
    by (simp add: density_trend_def Let_def)
  moreover have "map status (results (density_trend ds ts)) =
        map (\<lambda>i. trend_status
               (percentage_change (map (\<lambda>j. ds ! j) (argsort ts) ! 0)
                                  (map (\<lambda>j. ds ! j) (argsort ts) ! i)))
          [1, 2, 3]"
    by (simp add: results_density_trend status_period_result del: nth_map)
  moreover have "trend_status c = Improved \<longleftrightarrow> 0 < c"
    by (simp add: trend_status_def)
  moreover have "trend_status c = Worsened \<longleftrightarrow> c < - 5"
    by (simp add: trend_status_def)
  moreover have "trend_status c = Stable \<longleftrightarrow> - 5 \<le> c \<and> c \<le> 0"
    by (auto simp: trend_status_def)
  moreover have "trend_status (- 5) = Stable" "trend_status 0 = Stable"
    by (simp_all add: trend_status_def)
  ultimately show ?thesis by blast
qed



text \<open>
  C2. The four (density score, timestamp) pairs are put in ascending timestamp order
  before the baseline is read: the ordered list is a permutation of the input pairs, its
  timestamps are sorted, samples with equal timestamps keep their input order, and the
  trend points are computed from it (its first density is the baseline).
\<close>
theorem timestamps_sorted_stably:
  assumes "length ds = 4" and "length ts = 4"
  shows "mset (map (\<lambda>i. (ds ! i, ts ! i)) (argsort ts)) = mset (zip ds ts)
    \<and> sorted (map snd (map (\<lambda>i. (ds ! i, ts ! i)) (argsort ts)))
    \<and> (\<forall>k. filter (\<lambda>p. snd p = k) (map (\<lambda>i. (ds ! i, ts ! i)) (argsort ts))
           = filter (\<lambda>p. snd p = k) (zip ds ts))
    \<and> results (density_trend ds ts) =
        map (period_result (map fst (map (\<lambda>i. (ds ! i, ts ! i)) (argsort ts)))) [1, 2, 3]"
proof -
  have eq: "map (\<lambda>i. (ds ! i, ts ! i)) (argsort ts) = sort_key snd (zip ds ts)"
    using assms by (simp add: sorted_samples_sort_key)
  have dens: "map fst (map (\<lambda>i. (ds ! i, ts ! i)) (argsort ts)) = map (\<lambda>i. ds ! i) (argsort ts)"
    by (simp add: comp_def)
  have "results (density_trend ds ts) =
        map (period_result (map fst (map (\<lambda>i. (ds ! i, ts ! i)) (argsort ts)))) [1, 2, 3]"
    unfolding dens by (rule results_density_trend)
  moreover have "mset (sort_key snd (zip ds ts)) = mset (zip ds ts)"
    by simp
  moreover have "sorted (map snd (sort_key snd (zip ds ts)))"
    by simp
  moreover have "\<forall>k. filter (\<lambda>p. snd p = k) (sort_key snd (zip ds ts))
           = filter (\<lambda>p. snd p = k) (zip ds ts)"
    by (simp add: sort_key_stable)
  ultimately show ?thesis
    unfolding eq by blast
qed

theorem timestamps_sorted_stably_witness:
  "map (\<lambda>i. ([10, 12, 9, 20 :: rat] ! i, [''2024-02-01'', ''2024-01-01'', ''2024-02-01'', ''2024-01-01''] ! i))
       (argsort [''2024-02-01'', ''2024-01-01'', ''2024-02-01'', ''2024-01-01''])
     = [(12, ''2024-01-01''), (20, ''2024-01-01''), (10, ''2024-02-01''), (9, ''2024-02-01'')]
   \<and> filter (\<lambda>p. snd p = ''2024-02-01'')
        (map (\<lambda>i. ([10, 12, 9, 20 :: rat] ! i, [''2024-02-01'', ''2024-01-01'', ''2024-02-01'', ''2024-01-01''] ! i))
          (argsort [''2024-02-01'', ''2024-01-01'', ''2024-02-01'', ''2024-01-01'']))
      = [(10, ''2024-02-01''), (9, ''2024-02-01'')]
   \<and> results (density_trend [10, 12, 9, 20]
        [''2024-02-01'', ''2024-01-01'', ''2024-02-01'', ''2024-01-01'']) =
        map (period_result [12, 20, 10, 9]) [1, 2, 3]"
proof -
  let ?T = "[''2024-02-01'', ''2024-01-01'', ''2024-02-01'', ''2024-01-01'']"
  have a: "argsort ?T = [1, 3, 0, 2]"
    by code_simp
  show ?thesis
    using timestamps_sorted_stably [of "[10, 12, 9, 20]" ?T]
    by (simp add: a)
qed

text \<open>
  C6. For four samples with pairwise distinct timestamps, supplying the (image, timestamp)
  pairs in any other order returns the same tracking result.
\<close>
theorem order_independence:
  assumes len: "length image_urls = 4" "length timestamps = 4"
      "length image_urls' = 4" "length timestamps' = 4"
    and dist: "distinct timestamps"
    and perm: "mset (zip image_urls' timestamps') = mset (zip image_urls timestamps)"
    and run: "analyze_hair_density env image_urls timestamps = Inr r"
  shows "analyze_hair_density env image_urls' timestamps' = Inr r"
proof -
  let ?d = "\<lambda>u. projr (process_image env u)"
  from run len obtain ds where ds: "process_images env image_urls [] = Inr ds"
    by (auto simp: analyze_hair_density_def split: sum.splits)
  then have ok: "\<forall>u\<in>set image_urls. \<not> isl (process_image env u)"
    and ds_eq: "ds = map ?d image_urls"
    by (simp_all add: process_images_Inr_iff)
  from run ds len have r: "r = density_trend ds timestamps"
    by (simp add: analyze_hair_density_Inr)
  have "mset (map fst (zip image_urls' timestamps')) = mset (map fst (zip image_urls timestamps))"
    by (simp only: mset_map perm)
  with len have "mset image_urls' = mset image_urls"
    by (simp add: map_fst_zip)
  then have "set image_urls' = set image_urls"
    by (rule mset_eq_setD)
  with ok have ds': "process_images env image_urls' [] = Inr (map ?d image_urls')"
    by (simp add: process_images_Inr_iff)
  have "distinct (map snd (zip image_urls timestamps))"
    using len dist by (simp add: map_snd_zip)
  then have inj: "inj_on snd (set (zip image_urls timestamps))"
    by (simp add: distinct_map)
  have "sort_key snd (zip image_urls timestamps) = sort_key snd (zip image_urls' timestamps')"
    by (rule sort_key_eq_sort_key [OF perm [symmetric] inj])
  then have "map (\<lambda>i. map ?d image_urls ! i) (argsort timestamps) =
      map (\<lambda>i. map ?d image_urls' ! i) (argsort timestamps')"
    using len by (simp add: sorted_densities_sort_key)
  then have "density_trend (map ?d image_urls') timestamps' = density_trend ds timestamps"
    unfolding ds_eq by (rule density_trend_cong [symmetric])
  with analyze_hair_density_Inr [OF len(3,4) ds'] r show ?thesis by simp
qed

theorem order_independence_witness:
  "analyze_hair_density sample_env
     [''week1.png'', ''week2.png'', ''week3.png'', ''week4.png'']
     [''2024-01-01'', ''2024-01-08'', ''2024-01-15'', ''2024-01-22''] =
     Inr \<lparr>results =
            [\<lparr>week = 2, percentageChange = - 50, status = Worsened\<rparr>,
             \<lparr>week = 3, percentageChange = 50, status = Improved\<rparr>,
             \<lparr>week = 4, percentageChange = 100, status = Improved\<rparr>],
          overall_status = Improved,
          comparisonImageUrl = None\<rparr>
   \<and> analyze_hair_density sample_env
     [''week3.png'', ''week1.png'', ''week4.png'', ''week2.png'']
     [''2024-01-15'', ''2024-01-01'', ''2024-01-22'', ''2024-01-08''] =
     Inr \<lparr>results =
            [\<lparr>week = 2, percentageChange = - 50, status = Worsened\<rparr>,
             \<lparr>week = 3, percentageChange = 50, status = Improved\<rparr>,
             \<lparr>week = 4, percentageChange = 100, status = Improved\<rparr>],
          overall_status = Improved,
          comparisonImageUrl = None\<rparr>"
proof -
  let ?U = "[''week1.png'', ''week2.png'', ''week3.png'', ''week4.png'']"
  let ?T = "[''2024-01-01'', ''2024-01-08'', ''2024-01-15'', ''2024-01-22'']"
  let ?U' = "[''week3.png'', ''week1.png'', ''week4.png'', ''week2.png'']"
  let ?T' = "[''2024-01-15'', ''2024-01-01'', ''2024-01-22'', ''2024-01-08'']"
  have run: "analyze_hair_density sample_env ?U ?T = Inr (density_trend [50, 25, 75, 100] ?T)"
    by (rule analyze_hair_density_Inr [OF _ _ sample_images]) simp_all
  have d: "distinct ?T"
    by simp
  have m: "mset (zip ?U' ?T') = mset (zip ?U ?T)"
    by (simp add: add_mset_commute)
  show ?thesis
    using order_independence [OF _ _ _ _ d m run] run by (simp add: sample_trend)
qed

text \<open>
  C7. When one of the four images cannot be processed (it cannot be fetched or it does not
  decode), the whole call returns the error dict naming a failing image, and no tracking
  result is returned, whatever the other three images are.
\<close>
theorem image_failure_is_fatal:
  assumes "length image_urls = 4" and "length timestamps = 4"
    and "u \<in> set image_urls" and "process_image env u = Inl e"
  shows "(\<exists>u' e'. u' \<in> set image_urls \<and> process_image env u' = Inl e'
           \<and> analyze_hair_density env image_urls timestamps =
               Inl (''Failed to process image '' @ u' @ '': '' @ e'))
         \<and> (\<forall>r. analyze_hair_density env image_urls timestamps \<noteq> Inr r)"
proof -
  from process_images_first_failure [OF assms(3,4), of "[]"]
  obtain u' e' where f: "u' \<in> set image_urls" "process_image env u' = Inl e'"
      "process_images env image_urls [] = Inl (''Failed to process image '' @ u' @ '': '' @ e')"
    by blast
  from f(3) assms(1,2)
  have "analyze_hair_density env image_urls timestamps =
      Inl (''Failed to process image '' @ u' @ '': '' @ e')"
    by (simp add: analyze_hair_density_def)
  with f(1,2) show ?thesis by auto
qed

theorem image_failure_is_fatal_witness:
  "process_image sample_env ''corrupt.png'' = Inl ''Failed to decode image from corrupt.png''
   \<and> analyze_hair_density sample_env
       [''week1.png'', ''week2.png'', ''week3.png'', ''corrupt.png'']
       [''2024-01-01'', ''2024-01-08'', ''2024-01-15'', ''2024-01-22''] =
       Inl ''Failed to process image corrupt.png: Failed to decode image from corrupt.png''
   \<and> (\<forall>r. analyze_hair_density sample_env
         [''week1.png'', ''week2.png'', ''week3.png'', ''corrupt.png'']
         [''2024-01-01'', ''2024-01-08'', ''2024-01-15'', ''2024-01-22''] \<noteq> Inr r)"
proof -
  let ?U = "[''week1.png'', ''week2.png'', ''week3.png'', ''corrupt.png'']"
  let ?T = "[''2024-01-01'', ''2024-01-08'', ''2024-01-15'', ''2024-01-22'']"
  have run: "analyze_hair_density sample_env ?U ?T =
       Inl ''Failed to process image corrupt.png: Failed to decode image from corrupt.png''"
    by (simp add: analyze_hair_density_def sample_image_values sample_corrupt)
  have "''corrupt.png'' \<in> set ?U" by simp
  from image_failure_is_fatal [OF _ _ this sample_corrupt, of ?T] run sample_corrupt
  show ?thesis by simp
qed

text \<open>
  C9, as stated: a call with a timestamp that is no instant fails. The timestamps are
  strings and are only compared, so four strings that are no dates are sorted like any
  others and the call returns a tracking result.
\<close>
theorem unparsed_timestamps_counterexample:
  "analyze_hair_density sample_env
     [''week1.png'', ''week2.png'', ''week3.png'', ''week4.png'']
     [''not-a-date'', '''', ''next tuesday'', ''31/12/2024''] =
     Inr \<lparr>results =
            [\<lparr>week = 2, percentageChange = 300, status = Improved\<rparr>,
             \<lparr>week = 3, percentageChange = 200, status = Improved\<rparr>,
             \<lparr>week = 4, percentageChange = 100, status = Improved\<rparr>],
          overall_status = Improved,
          comparisonImageUrl = None\<rparr>"
proof -
  have "analyze_hair_density sample_env
     [''week1.png'', ''week2.png'', ''week3.png'', ''week4.png'']
     [''not-a-date'', '''', ''next tuesday'', ''31/12/2024''] =
     Inr (density_trend [50, 25, 75, 100] [''not-a-date'', '''', ''next tuesday'', ''31/12/2024''])"
    by (rule analyze_hair_density_Inr [OF _ _ sample_images]) simp_all
  then show ?thesis by (simp only: sample_trend_unparsed)
qed

text \<open>
  C9, amended: timestamps are never parsed. For any four timestamp strings the call fails
  exactly when the input count is wrong or an image cannot be processed.
\<close>
theorem timestamps_only_compared:
  fixes timestamps :: "string list"
  shows "(\<exists>e. analyze_hair_density env image_urls timestamps = Inl e) \<longleftrightarrow>
     (length image_urls \<noteq> 4 \<or> length timestamps \<noteq> 4
        \<or> (\<exists>e. process_images env image_urls [] = Inl e))"
proof (cases "process_images env image_urls []")
  case (Inl e)
  then show ?thesis by (simp add: analyze_hair_density_def)
next
  case (Inr ds)
  then show ?thesis
    by (cases "length image_urls = 4 \<and> length timestamps = 4")
       (auto simp: analyze_hair_density_def length_process_images)
qed

theorem timestamps_only_compared_witness:
  "process_images sample_env [''week1.png'', ''week2.png'', ''week3.png'', ''week4.png''] []
     = Inr [50, 25, 75, 100]
   \<and> \<not> (\<exists>e. analyze_hair_density sample_env
             [''week1.png'', ''week2.png'', ''week3.png'', ''week4.png'']
             [''2024-13-45'', ''yesterday'', ''12:00'', ''''] = Inl e)"
  using timestamps_only_compared
    [of sample_env "[''week1.png'', ''week2.png'', ''week3.png'', ''week4.png'']"
        "[''2024-13-45'', ''yesterday'', ''12:00'', '''']"]
    sample_images
  by simp

subsection \<open>Claims about \<open>predict_stage\<close>\<close>

text \<open>
  C1. For gender male or female, an image that loads and a prediction row whose arg-max
  is index 0, the call returns a dict that carries the rejection message, the index-0
  label \<open>non-scalp\<close>, the confidence and the image URL: it is marked invalid and is not a
  bare failure.
\<close>
theorem non_scalp_is_soft_rejection:
  assumes "gender = ''male'' \<or> gender = ''female''"
    and "load_image env url = Inr img"
    and "(if gender = ''male'' then male_model env else female_model env) img = Inr predictions"
    and "predictions \<noteq> []"
    and "np_argmax predictions = 0"
  shows "predict_stage env url gender =
           \<lparr>error = Some ''Invalid image! Please upload a scalp image.'',
            stage = Some ''non-scalp'',
            confidence = Some (np_max predictions),
            image_url = Some url\<rparr>
         \<and> \<not> is_failure (predict_stage env url gender)
         \<and> \<not> isValid (predict_stage env url gender)"
proof -
  have "predict_stage env url gender =
           \<lparr>error = Some ''Invalid image! Please upload a scalp image.'',
            stage = Some ''non-scalp'',
            confidence = Some (np_max predictions),
            image_url = Some url\<rparr>"
    using assms(1)
  proof
    assume "gender = ''male''"
    with assms(2-5) show ?thesis
      by (simp add: predict_stage_def Let_def labels_sentinel labels_nonempty)
  next
    assume g: "gender = ''female''"
    then have "gender \<noteq> ''male''" by simp
    with g assms(2-5) show ?thesis
      by (simp add: predict_stage_def Let_def labels_sentinel labels_nonempty)
  qed
  then show ?thesis
    by (simp add: is_failure_def isValid_def)
qed

theorem non_scalp_is_soft_rejection_witness:
  "load_image sample_stage_env ''desk.png'' = Inr ''desk.png''
   \<and> male_model sample_stage_env ''desk.png'' = Inr [9 / 10, 1 / 20, 1 / 20, 0, 0, 0, 0]
   \<and> np_argmax [9 / 10, 1 / 20, 1 / 20, 0, 0, 0, 0] = 0
   \<and> predict_stage sample_stage_env ''desk.png'' ''male'' =
           \<lparr>error = Some ''Invalid image! Please upload a scalp image.'',
            stage = Some ''non-scalp'',
            confidence = Some (9 / 10),
            image_url = Some ''desk.png''\<rparr>
   \<and> \<not> is_failure (predict_stage sample_stage_env ''desk.png'' ''male'')
   \<and> \<not> isValid (predict_stage sample_stage_env ''desk.png'' ''male'')"
proof -
  have l: "load_image sample_stage_env ''desk.png'' = Inr ''desk.png''"
    by (simp add: sample_stage_env_def)
  have m: "(if ''male'' = ''male'' then male_model sample_stage_env else female_model sample_stage_env)
      ''desk.png'' = Inr [9 / 10, 1 / 20, 1 / 20, 0, 0, 0, 0]"
    by (simp add: sample_stage_env_def)
  have a: "np_argmax [9 / 10, 1 / 20, 1 / 20, 0, 0, 0, 0] = 0"
    by (simp add: np_argmax_def)
  have x: "np_max [9 / 10, 1 / 20, 1 / 20, 0, 0, 0, 0] = 9 / 10"
    by simp
  show ?thesis
    using non_scalp_is_soft_rejection [OF _ l m _ a] l m a x
    by (simp add: is_failure_def isValid_def)
qed

text \<open>
  C8. For any gender other than \<open>male\<close> and \<open>female\<close> the call returns the
  invalid-gender error dict, whatever the image and the environment are: nothing is
  loaded and no model is run.
\<close>
theorem invalid_gender_rejected:
  assumes "gender \<noteq> ''male''" and "gender \<noteq> ''female''"
  shows "predict_stage env url gender = error_only invalid_gender_msg
         \<and> is_failure (predict_stage env url gender)
         \<and> predict_stage env' url' gender = predict_stage env url gender"
  using assms by (simp add: predict_stage_def error_only_def is_failure_def)

theorem invalid_gender_rejected_witness:
  "predict_stage sample_stage_env ''desk.png'' ''other'' = error_only invalid_gender_msg
   \<and> is_failure (predict_stage sample_stage_env ''desk.png'' ''other'')
   \<and> predict_stage sample_stage_env ''missing.png'' ''other''
       = predict_stage sample_stage_env ''desk.png'' ''other''
   \<and> predict_stage sample_stage_env ''desk.png'' ''Male'' = error_only invalid_gender_msg"
  using invalid_gender_rejected [of "''other''" sample_stage_env "''desk.png''" sample_stage_env "''missing.png''"]
    invalid_gender_rejected [of "''Male''" sample_stage_env "''desk.png''" sample_stage_env "''desk.png''"]
  by (simp add: is_failure_def error_only_def)

end
